theory Spec2Isabelle
  imports
    Main
    "HOL-Library.Multiset"
    "HOL-Library.List_Lexorder"
    "HOL-Library.Char_ord"
begin

section \<open>Go strings\<close>

text \<open>
  A Go string is a sequence of bytes, here a \<^typ>\<open>string\<close>. The functions of package
  \<^verbatim>\<open>strings\<close> that \<^verbatim>\<open>util/kustomize/kustomize.go\<close> calls are written out on bytes; where
  Go decodes UTF-8 (white space, the empty pattern of \<^verbatim>\<open>ReplaceAll\<close>) the byte sequences
  are given explicitly.
\<close>

definition HasPrefix :: "string \<Rightarrow> string \<Rightarrow> bool" where
  "HasPrefix s pre = (take (length pre) s = pre)"

definition HasSuffix :: "string \<Rightarrow> string \<Rightarrow> bool" where
  "HasSuffix s suf = (length suf \<le> length s \<and> drop (length s - length suf) s = suf)"

definition TrimPrefix :: "string \<Rightarrow> string \<Rightarrow> string" where
  "TrimPrefix s pre = (if HasPrefix s pre then drop (length pre) s else s)"

definition TrimSuffix :: "string \<Rightarrow> string \<Rightarrow> string" where
  "TrimSuffix s suf = (if HasSuffix s suf then take (length s - length suf) s else s)"

fun Contains :: "string \<Rightarrow> string \<Rightarrow> bool" where
  "Contains [] substr = (substr = [])"
| "Contains (c # s) substr = (HasPrefix (c # s) substr \<or> Contains s substr)"

fun Join :: "string list \<Rightarrow> string \<Rightarrow> string" where
  "Join [] sep = []"
| "Join [x] sep = x"
| "Join (x # y # xs) sep = x @ sep @ Join (y # xs) sep"

text \<open>
  The runes for which \<^verbatim>\<open>unicode.IsSpace\<close> holds, in UTF-8: the six ASCII ones, U+0085,
  U+00A0, U+1680, U+2000 to U+200A, U+2028, U+2029, U+202F, U+205F and U+3000.
\<close>

definition whiteSpace :: "string list" where
  "whiteSpace =
    [[CHR 0x09], [CHR 0x0A], [CHR 0x0B], [CHR 0x0C], [CHR 0x0D], [CHR 0x20],
     [CHR 0xC2, CHR 0x85], [CHR 0xC2, CHR 0xA0],
     [CHR 0xE1, CHR 0x9A, CHR 0x80],
     [CHR 0xE2, CHR 0x80, CHR 0x80], [CHR 0xE2, CHR 0x80, CHR 0x81],
     [CHR 0xE2, CHR 0x80, CHR 0x82], [CHR 0xE2, CHR 0x80, CHR 0x83],
     [CHR 0xE2, CHR 0x80, CHR 0x84], [CHR 0xE2, CHR 0x80, CHR 0x85],
     [CHR 0xE2, CHR 0x80, CHR 0x86], [CHR 0xE2, CHR 0x80, CHR 0x87],
     [CHR 0xE2, CHR 0x80, CHR 0x88], [CHR 0xE2, CHR 0x80, CHR 0x89],
     [CHR 0xE2, CHR 0x80, CHR 0x8A],
     [CHR 0xE2, CHR 0x80, CHR 0xA8], [CHR 0xE2, CHR 0x80, CHR 0xA9],
     [CHR 0xE2, CHR 0x80, CHR 0xAF],
     [CHR 0xE2, CHR 0x81, CHR 0x9F],
     [CHR 0xE3, CHR 0x80, CHR 0x80]]"

text \<open>The number of bytes of the first of the encodings \<open>es\<close> that \<open>s\<close> starts with, 0 if none.\<close>

fun leadLen :: "string list \<Rightarrow> string \<Rightarrow> nat" where
  "leadLen [] s = 0"
| "leadLen (e # es) s = (if HasPrefix s e then length e else leadLen es s)"

fun dropLead :: "string list \<Rightarrow> string \<Rightarrow> string" where
  "dropLead es [] = []"
| "dropLead es (c # s) =
     (if 0 < leadLen es (c # s) then dropLead es (drop (leadLen es (c # s) - 1) s) else c # s)"

definition TrimLeftSpace :: "string \<Rightarrow> string" where
  "TrimLeftSpace s = dropLead whiteSpace s"

definition TrimRightSpace :: "string \<Rightarrow> string" where
  "TrimRightSpace s = rev (dropLead (map rev whiteSpace) (rev s))"

definition TrimSpace :: "string \<Rightarrow> string" where
  "TrimSpace s = TrimRightSpace (TrimLeftSpace s)"

text \<open>\<^verbatim>\<open>strings.Fields\<close>: the maximal runs of bytes between white space.\<close>

fun fieldsFrom :: "string \<Rightarrow> string \<Rightarrow> string list" where
  "fieldsFrom cur [] = (if cur = [] then [] else [cur])"
| "fieldsFrom cur (c # s) =
     (if 0 < leadLen whiteSpace (c # s)
      then (if cur = [] then [] else [cur]) @ fieldsFrom [] (drop (leadLen whiteSpace (c # s) - 1) s)
      else fieldsFrom (cur @ [c]) s)"

definition Fields :: "string \<Rightarrow> string list" where
  "Fields s = fieldsFrom [] s"

text \<open>
  \<^verbatim>\<open>utf8.DecodeRuneInString\<close>, the width only: 1 for an ASCII byte and for a byte that
  starts no well-formed sequence, otherwise the length of the sequence.
\<close>

definition contByte :: "char \<Rightarrow> bool" where
  "contByte c = (0x80 \<le> (of_char c :: nat) \<and> (of_char c :: nat) \<le> 0xBF)"

definition secondByte :: "nat \<Rightarrow> char \<Rightarrow> bool" where
  "secondByte b0 c =
     ((if b0 = 0xE0 then 0xA0 else if b0 = 0xF0 then 0x90 else 0x80) \<le> (of_char c :: nat) \<and>
      (of_char c :: nat) \<le> (if b0 = 0xED then 0x9F else if b0 = 0xF4 then 0x8F else 0xBF))"

definition runeWidth :: "string \<Rightarrow> nat" where
  "runeWidth s =
     (case s of
        [] \<Rightarrow> 0
      | c0 # t \<Rightarrow>
          (let b0 = (of_char c0 :: nat) in
           if b0 < 0xC2 \<or> 0xF4 < b0 then 1
           else if b0 \<le> 0xDF then
             (case t of c1 # _ \<Rightarrow> if secondByte b0 c1 then 2 else 1 | _ \<Rightarrow> 1)
           else if b0 \<le> 0xEF then
             (case t of
                c1 # c2 # _ \<Rightarrow> if secondByte b0 c1 \<and> contByte c2 then 3 else 1
              | _ \<Rightarrow> 1)
           else
             (case t of
                c1 # c2 # c3 # _ \<Rightarrow>
                  if secondByte b0 c1 \<and> contByte c2 \<and> contByte c3 then 4 else 1
              | _ \<Rightarrow> 1)))"

text \<open>
  \<^verbatim>\<open>strings.ReplaceAll(s, old, new)\<close>. With a non-empty \<open>old\<close> the occurrences are
  found from the left and do not overlap; with an empty \<open>old\<close> Go puts \<open>new\<close> before
  the string and after each of its runes.
\<close>

fun replaceFrom :: "string \<Rightarrow> string \<Rightarrow> string \<Rightarrow> string" where
  "replaceFrom old new [] = []"
| "replaceFrom old new (c # s) =
     (if HasPrefix (c # s) old
      then new @ replaceFrom old new (drop (length old - 1) s)
      else c # replaceFrom old new s)"

fun afterEachRune :: "string \<Rightarrow> string \<Rightarrow> string" where
  "afterEachRune new [] = []"
| "afterEachRune new (c # s) =
     take (runeWidth (c # s)) (c # s) @ new @ afterEachRune new (drop (runeWidth (c # s) - 1) s)"

definition ReplaceAll :: "string \<Rightarrow> string \<Rightarrow> string \<Rightarrow> string" where
  "ReplaceAll s old new =
     (if old = new then s
      else if old = [] then new @ afterEachRune new s
      else replaceFrom old new s)"

text \<open>\<^verbatim>\<open>%d\<close> of an integer.\<close>

fun decimal :: "nat \<Rightarrow> string" where
  "decimal n = (if n < 10 then [char_of (48 + n)] else decimal (n div 10) @ [char_of (48 + n mod 10)])"

definition Sprintf_d :: "int \<Rightarrow> string" where
  "Sprintf_d i = (if i < 0 then CHR ''-'' # decimal (nat (- i)) else decimal (nat i))"

section \<open>Generic documents\<close>

text \<open>
  A value of Go's \<^verbatim>\<open>any\<close> as this file meets it: what \<^verbatim>\<open>yaml.Unmarshal\<close> and
  \<^verbatim>\<open>kube.SplitYAML\<close> produce (mappings, sequences, strings and other scalars), and the
  typed patches of the application manifest that \<^verbatim>\<open>Build\<close> stores into the parsed
  kustomization (\<open>'p\<close> is \<^verbatim>\<open>v1alpha1.KustomizePatch\<close>, declared outside this file).
  A number is kept as its text: no function here looks into it. A Go map is the list
  of its entries in the order in which \<^verbatim>\<open>range\<close> visits them; Go leaves that order
  open, so the properties below are stated for every order. A lookup \<^verbatim>\<open>m[k]\<close> is
  \<open>map_of\<close>.
\<close>

datatype 'p any =
    MapV "(string \<times> 'p any) list"
  | SliceV "'p any list"
  | StrV string
  | NumV string
  | BoolV bool
  | NilV
  | PatchV 'p
  | PatchesV "'p list"

text \<open>
  \<^verbatim>\<open>fmt.Sprintf("%s", v)\<close>: a string is printed as it is; what \<^verbatim>\<open>fmt\<close> prints for any
  other operand is the parameter \<open>other\<close>.
\<close>

definition Sprintf_s :: "('p any \<Rightarrow> string) \<Rightarrow> 'p any \<Rightarrow> string" where
  "Sprintf_s other v = (case v of StrV s \<Rightarrow> s | _ \<Rightarrow> other v)"

section \<open>The image scan\<close>

text \<open>
  \<^verbatim>\<open>getImages\<close>, lines 512 to 537. Each loop is a function that carries the slice
  \<^verbatim>\<open>images\<close>: \<open>containerImages\<close> is the loop over the elements under \<^verbatim>\<open>containers\<close> or
  \<^verbatim>\<open>initContainers\<close>, \<open>rangeElems\<close> the loop over any other sequence, \<open>rangeObject\<close>
  the loop over the keys of the mapping.
\<close>

fun containerImages :: "('p any \<Rightarrow> string) \<Rightarrow> string list \<Rightarrow> 'p any list \<Rightarrow> string list" where
  "containerImages other images [] = images"
| "containerImages other images (obj # v) =
     containerImages other
       (case obj of
          MapV mapObj \<Rightarrow>
            (case map_of mapObj ''image'' of
               Some image' \<Rightarrow> images @ [Sprintf_s other image']
             | None \<Rightarrow> images)
        | _ \<Rightarrow> images) v"

function rangeObject :: "('p any \<Rightarrow> string) \<Rightarrow> string list \<Rightarrow> (string \<times> 'p any) list \<Rightarrow> string list"
  and rangeElems :: "('p any \<Rightarrow> string) \<Rightarrow> string list \<Rightarrow> 'p any list \<Rightarrow> string list" where
  "rangeObject other images [] = images"
| "rangeObject other images ((k, v) # object) =
     rangeObject other
       (case v of
          SliceV vs \<Rightarrow>
            if k = ''containers'' \<or> k = ''initContainers''
            then containerImages other images vs
            else rangeElems other images vs
        | MapV m \<Rightarrow> images @ rangeObject other [] m
        | _ \<Rightarrow> images) object"
| "rangeElems other images [] = images"
| "rangeElems other images (e # vs) =
     rangeElems other
       (case e of
          MapV mapObj \<Rightarrow> images @ rangeObject other [] mapObj
        | _ \<Rightarrow> images) vs"
  by pat_completeness auto
termination
  by (relation "measure (\<lambda>x. case x of
        Inl (_, _, object) \<Rightarrow> size_list (size_prod (\<lambda>_. 0) size) object
      | Inr (_, _, vs) \<Rightarrow> size_list size vs)") auto

definition getImages :: "('p any \<Rightarrow> string) \<Rightarrow> (string \<times> 'p any) list \<Rightarrow> string list" where
  "getImages other object = rangeObject other [] object"

text \<open>
  \<^verbatim>\<open>getImageParameters\<close>, lines 503 to 510. An object is the \<^verbatim>\<open>Object\<close> field of an
  \<^verbatim>\<open>unstructured.Unstructured\<close>. \<^verbatim>\<open>sort.Strings\<close> orders by Go's \<^verbatim>\<open><\<close> on strings, the
  lexicographic order on bytes, which is the order of \<^typ>\<open>string\<close> here.
\<close>

fun appendImages :: "('p any \<Rightarrow> string) \<Rightarrow> string list \<Rightarrow> (string \<times> 'p any) list list \<Rightarrow> string list" where
  "appendImages other images [] = images"
| "appendImages other images (obj # objs) = appendImages other (images @ getImages other obj) objs"

definition getImageParameters :: "('p any \<Rightarrow> string) \<Rightarrow> (string \<times> 'p any) list list \<Rightarrow> string list" where
  "getImageParameters other objs = sort (appendImages other [] objs)"

text \<open>
  What one key of a mapping adds to the scan, in the words of the specification: under
  \<^verbatim>\<open>containers\<close> or \<^verbatim>\<open>initContainers\<close> holding a sequence, the string form of the
  \<^verbatim>\<open>image\<close> field of each element that is a mapping; under any other key holding a
  sequence, the scan of each element that is a mapping; under a key holding a mapping,
  the scan of that mapping; nothing otherwise.
\<close>

definition imageField :: "('p any \<Rightarrow> string) \<Rightarrow> 'p any \<Rightarrow> string list" where
  "imageField other e =
     (case e of
        MapV m \<Rightarrow> (case map_of m ''image'' of Some i \<Rightarrow> [Sprintf_s other i] | None \<Rightarrow> [])
      | _ \<Rightarrow> [])"

definition scanOfElement :: "('p any \<Rightarrow> string) \<Rightarrow> 'p any \<Rightarrow> string list" where
  "scanOfElement other e = (case e of MapV m \<Rightarrow> getImages other m | _ \<Rightarrow> [])"

definition contribution :: "('p any \<Rightarrow> string) \<Rightarrow> string \<Rightarrow> 'p any \<Rightarrow> string list" where
  "contribution other k v =
     (case v of
        SliceV vs \<Rightarrow>
          if k = ''containers'' \<or> k = ''initContainers''
          then concat (map (imageField other) vs)
          else concat (map (scanOfElement other) vs)
      | MapV m \<Rightarrow> getImages other m
      | _ \<Rightarrow> [])"

section \<open>Semantic versions\<close>

text \<open>
  The pattern \<^verbatim>\<open>semVerRegex\<close> of lines 432 to 434:
  \<^verbatim>\<open>v?([0-9]+)(\.[0-9]+)?(\.[0-9]+)?(-([0-9A-Za-z\-]+(\.[0-9A-Za-z\-]+)*))?(\+([0-9A-Za-z\-]+(\.[0-9A-Za-z\-]+)*))?\<close>.
  Go's \<^verbatim>\<open>regexp\<close> prefers the leftmost match and, in it, the greedy choice at each
  \<^verbatim>\<open>?\<close>, \<^verbatim>\<open>+\<close> and \<^verbatim>\<open>*\<close>. After the digits of the first group every later group is
  optional, so the greedy choice never has to be taken back: the matcher below reads the
  string once from the left.
\<close>

definition isDigit :: "char \<Rightarrow> bool" where
  "isDigit c = (c \<in> set ''0123456789'')"

definition isIdentChar :: "char \<Rightarrow> bool" where
  "isIdentChar c =
     (c \<in> set ''0123456789ABCDEFGHIJKLMNOPQRSTUVWXYZabcdefghijklmnopqrstuvwxyz-'')"

text \<open>The submatches that are read: \<^verbatim>\<open>m[0]\<close>, \<^verbatim>\<open>m[1]\<close>, \<^verbatim>\<open>m[2]\<close>, \<^verbatim>\<open>m[3]\<close>, \<^verbatim>\<open>m[5]\<close>, \<^verbatim>\<open>m[8]\<close>.\<close>

record submatch =
  whole :: string
  majorS :: string
  minorS :: string
  patchS :: string
  preS :: string
  metaS :: string

text \<open>\<^verbatim>\<open>(\.[0-9]+)?\<close>: the group with its dot (empty when it does not take part) and the rest.\<close>

definition optDotNumber :: "string \<Rightarrow> string \<times> string" where
  "optDotNumber s =
     (case s of
        c # d # t \<Rightarrow>
          if c = CHR ''.'' \<and> isDigit d
          then (c # takeWhile isDigit (d # t), dropWhile isDigit (d # t))
          else ([], s)
      | _ \<Rightarrow> ([], s))"

text \<open>
  \<^verbatim>\<open>[0-9A-Za-z\-]*(\.[0-9A-Za-z\-]+)*\<close>, entered where an identifier has begun: a dot is
  taken only when an identifier character follows it.
\<close>

fun identifiers :: "string \<Rightarrow> string \<times> string" where
  "identifiers [] = ([], [])"
| "identifiers (c # s) =
     (if isIdentChar c \<or> (c = CHR ''.'' \<and> (case s of d # _ \<Rightarrow> isIdentChar d | [] \<Rightarrow> False))
      then (case identifiers s of (m, r) \<Rightarrow> (c # m, r))
      else ([], c # s))"

text \<open>
  \<^verbatim>\<open>(-(...))?\<close> and \<^verbatim>\<open>(\+(...))?\<close>: the inner group, without the sign \<open>tag\<close>, and the rest.
\<close>

definition optTagged :: "char \<Rightarrow> string \<Rightarrow> string \<times> string" where
  "optTagged tag s =
     (case s of
        c # d # t \<Rightarrow> if c = tag \<and> isIdentChar d then identifiers (d # t) else ([], s)
      | _ \<Rightarrow> ([], s))"

text \<open>The pattern matched at the very start of \<open>s\<close>.\<close>

definition matchAt :: "string \<Rightarrow> submatch option" where
  "matchAt s =
     (let s1 = (case s of c # t \<Rightarrow> if c = CHR ''v'' then t else s | [] \<Rightarrow> s);
          ma = takeWhile isDigit s1
      in if ma = [] then None
         else
           (case optDotNumber (dropWhile isDigit s1) of (mi, s2) \<Rightarrow>
            case optDotNumber s2 of (pa, s3) \<Rightarrow>
            case optTagged (CHR ''-'') s3 of (pr, s4) \<Rightarrow>
            case optTagged (CHR ''+'') s4 of (me, s5) \<Rightarrow>
              Some \<lparr>whole = take (length s - length s5) s, majorS = ma, minorS = mi,
                    patchS = pa, preS = pr, metaS = me\<rparr>))"

text \<open>\<^verbatim>\<open>semverRegex.FindStringSubmatch\<close>: the match that starts first; \<open>None\<close> is Go's nil slice.\<close>

fun FindStringSubmatch :: "string \<Rightarrow> submatch option" where
  "FindStringSubmatch [] = None"
| "FindStringSubmatch (c # s) =
     (case matchAt (c # s) of Some m \<Rightarrow> Some m | None \<Rightarrow> FindStringSubmatch s)"

text \<open>
  \<^verbatim>\<open>semver.Version\<close> of \<^verbatim>\<open>github.com/Masterminds/semver/v3\<close>, and \<^verbatim>\<open>semver.NewVersion\<close>
  as that library has it where it parses with this very pattern (line 431 names the
  revision the pattern was copied from): the pattern anchored at both ends, the three
  numbers read as 64-bit unsigned decimals, a numeric prerelease identifier refused when
  it has a leading zero. \<open>splitOn\<close> is \<^verbatim>\<open>strings.Split\<close> at one byte.
\<close>

type_synonym error = string

record Version =
  major :: nat
  minor :: nat
  patch :: nat
  pre :: string
  metadata :: string
  original :: string

definition ParseUint :: "string \<Rightarrow> error + nat" where
  "ParseUint s =
     (if s = [] \<or> \<not> list_all isDigit s
      then Inl (''strconv.ParseUint: parsing \"'' @ s @ ''\": invalid syntax'')
      else
        (let n = foldl (\<lambda>a c. 10 * a + (of_char c - 48)) 0 s
         in if n < 18446744073709551616 then Inr n
            else Inl (''strconv.ParseUint: parsing \"'' @ s @ ''\": value out of range'')))"

fun splitOn :: "char \<Rightarrow> string \<Rightarrow> string \<Rightarrow> string list" where
  "splitOn sep cur [] = [cur]"
| "splitOn sep cur (c # s) = (if c = sep then cur # splitOn sep [] s else splitOn sep (cur @ [c]) s)"

fun prereleaseParts :: "string list \<Rightarrow> error option" where
  "prereleaseParts [] = None"
| "prereleaseParts (p # eparts) =
     (if p = [] then Some ''Invalid Metadata string''
      else if list_all isDigit p then
        (if 1 < length p \<and> hd p = CHR ''0'' then Some ''Version segment starts with 0''
         else prereleaseParts eparts)
      else if \<not> list_all isIdentChar p then Some ''Invalid Prerelease string''
      else prereleaseParts eparts)"

definition validatePrerelease :: "string \<Rightarrow> error option" where
  "validatePrerelease p = prereleaseParts (splitOn (CHR ''.'') [] p)"

fun metadataParts :: "string list \<Rightarrow> error option" where
  "metadataParts [] = None"
| "metadataParts (p # eparts) =
     (if p = [] then Some ''Invalid Metadata string''
      else if \<not> list_all isIdentChar p then Some ''Invalid Metadata string''
      else metadataParts eparts)"

definition validateMetadata :: "string \<Rightarrow> error option" where
  "validateMetadata m = metadataParts (splitOn (CHR ''.'') [] m)"

definition segment :: "string \<Rightarrow> error + nat" where
  "segment g = (if g \<noteq> [] then ParseUint (TrimPrefix g ''.'') else Inr 0)"

definition NewVersion :: "string \<Rightarrow> error + Version" where
  "NewVersion v =
     (case matchAt v of
        None \<Rightarrow> Inl ''Invalid Semantic Version''
      | Some m \<Rightarrow>
          if whole m \<noteq> v then Inl ''Invalid Semantic Version''
          else
            (case ParseUint (majorS m) of
               Inl e \<Rightarrow> Inl (''Error parsing version segment: '' @ e)
             | Inr ma \<Rightarrow>
            (case segment (minorS m) of
               Inl e \<Rightarrow> Inl (''Error parsing version segment: '' @ e)
             | Inr mi \<Rightarrow>
            (case segment (patchS m) of
               Inl e \<Rightarrow> Inl (''Error parsing version segment: '' @ e)
             | Inr pa \<Rightarrow>
            (case (if preS m \<noteq> [] then validatePrerelease (preS m) else None) of
               Some e \<Rightarrow> Inl e
             | None \<Rightarrow>
            (case (if metaS m \<noteq> [] then validateMetadata (metaS m) else None) of
               Some e \<Rightarrow> Inl e
             | None \<Rightarrow>
                 Inr \<lparr>major = ma, minor = mi, patch = pa, pre = preS m,
                      metadata = metaS m, original = v\<rparr>))))))"

text \<open>
  \<^verbatim>\<open>Version.Compare\<close> and \<^verbatim>\<open>Version.LessThan\<close>. How the library orders two prereleases
  is the parameter \<open>cmpPre\<close>; it is asked only when both versions carry one, and the
  thresholds of this file carry none.
\<close>

definition compareSegment :: "nat \<Rightarrow> nat \<Rightarrow> int" where
  "compareSegment v o' = (if v < o' then - 1 else if o' < v then 1 else 0)"

definition Compare :: "(string \<Rightarrow> string \<Rightarrow> int) \<Rightarrow> Version \<Rightarrow> Version \<Rightarrow> int" where
  "Compare cmpPre v o' =
     (if compareSegment (major v) (major o') \<noteq> 0 then compareSegment (major v) (major o')
      else if compareSegment (minor v) (minor o') \<noteq> 0 then compareSegment (minor v) (minor o')
      else if compareSegment (patch v) (patch o') \<noteq> 0 then compareSegment (patch v) (patch o')
      else if pre v = [] \<and> pre o' = [] then 0
      else if pre v = [] then 1
      else if pre o' = [] then - 1
      else cmpPre (pre v) (pre o'))"

definition LessThan :: "(string \<Rightarrow> string \<Rightarrow> int) \<Rightarrow> Version \<Rightarrow> Version \<Rightarrow> bool" where
  "LessThan cmpPre v o' = (Compare cmpPre v o' < 0)"

text \<open>
  The versions that the file obtains from \<^verbatim>\<open>semver.MustParse\<close>, by their values; that
  \<open>NewVersion\<close> yields them, so that \<^verbatim>\<open>MustParse\<close> does not panic, is
  \<open>MustParse_constants\<close> below.
\<close>

definition release :: "nat \<Rightarrow> nat \<Rightarrow> nat \<Rightarrow> string \<Rightarrow> Version" where
  "release ma mi pa text =
     \<lparr>major = ma, minor = mi, patch = pa, pre = [], metadata = [], original = text\<rparr>"

definition unknownVersion :: Version where
  "unknownVersion = release 99 99 99 ''v99.99.99''"

definition v3_8_5 :: Version where
  "v3_8_5 = release 3 8 5 ''v3.8.5''"

definition v3_7_0 :: Version where
  "v3_7_0 = release 3 7 0 ''v3.7.0''"

definition v5_3_0 :: Version where
  "v5_3_0 = release 5 3 0 ''v5.3.0''"

section \<open>Commands, collaborators and state\<close>

text \<open>
  \<^verbatim>\<open>exec.Cmd\<close> with the fields this file sets; \<^verbatim>\<open>exec.Command(name, arg...)\<close> puts the
  name first into \<^verbatim>\<open>Args\<close>. \<^verbatim>\<open>Path\<close> is the name as it was given: the search for it in
  the directories of \<^verbatim>\<open>PATH\<close> is left out. An \<^verbatim>\<open>Env\<close> that was never set is \<open>None\<close>.
\<close>

record Cmd =
  Path :: string
  Args :: "string list"
  Env :: "string list option"
  Dir :: string

definition Command :: "string \<Rightarrow> string list \<Rightarrow> Cmd" where
  "Command name arg = \<lparr>Path = name, Args = name # arg, Env = None, Dir = []\<rparr>"

text \<open>
  The struct \<^verbatim>\<open>kustomize\<close>, lines 58 to 73. Of \<^verbatim>\<open>creds\<close> the file calls \<^verbatim>\<open>Environ()\<close>
  only; the field holds what that call returns (the closer is left out).
\<close>

record kustomize =
  repoRoot :: string
  path :: string
  creds :: "error + string list"
  repo :: string
  binaryPath :: string
  proxy :: string
  noProxy :: string

text \<open>\<^verbatim>\<open>&kustomize{}\<close>.\<close>

definition kustomize0 :: kustomize where
  "kustomize0 = \<lparr>repoRoot = [], path = [], creds = Inr [], repo = [], binaryPath = [],
                  proxy = [], noProxy = []\<rparr>"

text \<open>
  The arguments of \<^verbatim>\<open>Build\<close>, with the fields of \<^verbatim>\<open>v1alpha1.ApplicationSourceKustomize\<close>,
  \<^verbatim>\<open>v1alpha1.KustomizeOptions\<close> and \<^verbatim>\<open>BuildOpts\<close> that the file reads. A pointer that may
  be nil is an \<open>option\<close>.
\<close>

datatype IntOrString = IntVal int | StrVal string

record KustomizeReplica =
  Name :: string
  Count :: IntOrString

type_synonym EnvEntries = "(string \<times> string) list"

record 'p ApplicationSourceKustomize =
  NamePrefix :: string
  NameSuffix :: string
  Images :: "string list"
  Replicas :: "KustomizeReplica list"
  CommonLabels :: "(string \<times> string) list"
  ForceCommonLabels :: bool
  LabelWithoutSelector :: bool
  LabelIncludeTemplates :: bool
  CommonAnnotations :: "(string \<times> string) list"
  ForceCommonAnnotations :: bool
  CommonAnnotationsEnvsubst :: bool
  Namespace :: string
  Patches :: "'p list"
  Components :: "string list"
  IgnoreMissingComponents :: bool

record KustomizeOptions =
  BuildOptions :: string

record BuildOpts =
  KubeVersion :: string
  APIVersions :: "string list"

text \<open>
  What \<^verbatim>\<open>Build\<close> calls outside this file, as parameters: the operating system and the
  wrapped tool act on a world \<open>'w\<close>; the other packages are functions.
\<close>

record ('w, 'p) deps =
  Run :: "Cmd \<Rightarrow> 'w \<Rightarrow> (error + string) \<times> 'w"
  GetCommandArgsToLog :: "Cmd \<Rightarrow> string"
  Environ :: "'w \<Rightarrow> string list"
  EnvEnviron :: "EnvEntries \<Rightarrow> string list"
  Envsubst :: "EnvEntries option \<Rightarrow> string \<Rightarrow> string"
  IsHTTPSURL :: "string \<Rightarrow> bool"
  ParseHost :: "string \<Rightarrow> error + string"
  GetCertBundlePathForRepository :: "'w \<Rightarrow> string \<Rightarrow> error + string"
  GetIntCount :: "KustomizeReplica \<Rightarrow> error + int"
  Stat :: "'w \<Rightarrow> string \<Rightarrow> error + nat"
  ReadFile :: "'w \<Rightarrow> string \<Rightarrow> error + string"
  WriteFile :: "string \<Rightarrow> string \<Rightarrow> nat \<Rightarrow> 'w \<Rightarrow> error option \<times> 'w"
  OpenRoot :: "'w \<Rightarrow> string \<Rightarrow> error option"
  RootStat :: "'w \<Rightarrow> string \<Rightarrow> string \<Rightarrow> error option"
  PathJoin :: "string \<Rightarrow> string \<Rightarrow> string"
  Rel :: "string \<Rightarrow> string \<Rightarrow> error + string"
  Unmarshal :: "string \<Rightarrow> error + 'p any"
  Marshal :: "'p any \<Rightarrow> error + string"
  SplitYAML :: "string \<Rightarrow> error + (string \<times> 'p any) list list"
  UpsertEnv :: "Cmd \<Rightarrow> string \<Rightarrow> string \<Rightarrow> string list"
  comparePrerelease :: "string \<Rightarrow> string \<Rightarrow> int"
  verb_s :: "'p any \<Rightarrow> string"
  verb_T :: "'p any \<Rightarrow> string"

text \<open>
  The state a build runs in: the world, the package variable \<^verbatim>\<open>semVer\<close> (\<open>None\<close> is
  nil), and, for the properties only, every command handed to \<^verbatim>\<open>executil.Run\<close> so far,
  in order.
\<close>

record 'w state =
  world :: 'w
  semVer :: "Version option"
  ran :: "Cmd list"

definition run :: "('w, 'p) deps \<Rightarrow> Cmd \<Rightarrow> 'w state \<Rightarrow> (error + string) \<times> 'w state" where
  "run d cmd st =
     (case Run d cmd (world st) of (r, w) \<Rightarrow> (r, st\<lparr>world := w, ran := ran st @ [cmd]\<rparr>))"

section \<open>Kustomization files\<close>

text \<open>Lines 75 to 97.\<close>

definition KustomizationNames :: "string list" where
  "KustomizationNames = [''kustomization.yaml'', ''kustomization.yml'', ''Kustomization'']"

fun IsKustomizationIn :: "string list \<Rightarrow> string \<Rightarrow> bool" where
  "IsKustomizationIn [] path' = False"
| "IsKustomizationIn (kustomization # names) path' =
     (if path' = kustomization then True else IsKustomizationIn names path')"

definition IsKustomization :: "string \<Rightarrow> bool" where
  "IsKustomization path' = IsKustomizationIn KustomizationNames path'"

fun findKustomizeFileIn :: "('w, 'p) deps \<Rightarrow> 'w \<Rightarrow> string list \<Rightarrow> string \<Rightarrow> string" where
  "findKustomizeFileIn d w [] dir = []"
| "findKustomizeFileIn d w (file # names) dir =
     (case Stat d w (PathJoin d dir file) of
        Inr _ \<Rightarrow> file
      | Inl _ \<Rightarrow> findKustomizeFileIn d w names dir)"

definition findKustomizeFile :: "('w, 'p) deps \<Rightarrow> 'w \<Rightarrow> string \<Rightarrow> string" where
  "findKustomizeFile d w dir = findKustomizeFileIn d w KustomizationNames dir"

section \<open>Version detection\<close>

definition getBinaryPath :: "kustomize \<Rightarrow> string" where
  "getBinaryPath k = (if binaryPath k \<noteq> [] then binaryPath k else ''kustomize'')"

text \<open>Lines 489 to 499: what \<^verbatim>\<open>versionWithBinaryPath\<close> does to the output of the tool.\<close>

definition trimVersion :: "string \<Rightarrow> string" where
  "trimVersion out =
     (let version = TrimSpace out;
          version = TrimPrefix version ''{'';
          version = TrimSuffix version ''}'';
          version = TrimSpace version;
          version = ReplaceAll version ''  '' '' '';
          version = TrimPrefix version ''kustomize/''
      in version)"

definition versionWithBinaryPath ::
  "('w, 'p) deps \<Rightarrow> kustomize \<Rightarrow> 'w state \<Rightarrow> (error + string) \<times> 'w state" where
  "versionWithBinaryPath d k st =
     (case run d (Command (getBinaryPath k) [''version'', ''--short'']) st of
        (Inl err, st') \<Rightarrow> (Inl (''could not get kustomize version: '' @ err), st')
      | (Inr version, st') \<Rightarrow> (Inr (trimVersion version), st'))"

definition Version :: "('w, 'p) deps \<Rightarrow> 'w state \<Rightarrow> (error + string) \<times> 'w state" where
  "Version d st = versionWithBinaryPath d kustomize0 st"

definition getSemver ::
  "('w, 'p) deps \<Rightarrow> kustomize \<Rightarrow> 'w state \<Rightarrow> (error + Version) \<times> 'w state" where
  "getSemver d k st =
     (case versionWithBinaryPath d k st of
        (Inl err, st') \<Rightarrow> (Inl err, st')
      | (Inr verStr, st') \<Rightarrow>
          (case FindStringSubmatch verStr of
             None \<Rightarrow>
               (Inl (''expected string that includes semver formatted version but got: '' @
                     [CHR 0x27] @ verStr @ [CHR 0x27]), st')
           | Some semverMatches \<Rightarrow> (NewVersion (whole semverMatches), st')))"

text \<open>
  \<^verbatim>\<open>getSemverSafe\<close>, lines 461 to 474. The lock and the warning it logs are left out.
\<close>

definition getSemverSafe ::
  "('w, 'p) deps \<Rightarrow> kustomize \<Rightarrow> 'w state \<Rightarrow> Version \<times> 'w state" where
  "getSemverSafe d k st =
     (case semVer st of
        Some v \<Rightarrow> (v, st)
      | None \<Rightarrow>
          (case getSemver d k st of
             (Inl err, st') \<Rightarrow> (unknownVersion, st'\<lparr>semVer := Some unknownVersion\<rparr>)
           | (Inr ver, st') \<Rightarrow> (ver, st'\<lparr>semVer := Some ver\<rparr>)))"

section \<open>Labels and annotations as arguments\<close>

text \<open>
  \<^verbatim>\<open>mapToEditAddArgs\<close>, lines 108 to 125; \<open>joinPairs\<close> is the loop of lines 112 to 117
  with its variable \<^verbatim>\<open>arg\<close>, \<open>eachPair\<close> the loop of lines 120 to 122 with \<^verbatim>\<open>args\<close>.
\<close>

fun joinPairs :: "string \<Rightarrow> (string \<times> string) list \<Rightarrow> string" where
  "joinPairs arg [] = arg"
| "joinPairs arg ((labelName, labelValue) # val) =
     joinPairs ((if arg \<noteq> [] then arg @ '','' else arg) @ (labelName @ '':'' @ labelValue)) val"

fun eachPair :: "string list \<Rightarrow> (string \<times> string) list \<Rightarrow> string list" where
  "eachPair args [] = args"
| "eachPair args ((labelName, labelValue) # val) =
     eachPair (args @ [labelName @ '':'' @ labelValue]) val"

definition mapToEditAddArgs ::
  "('w, 'p) deps \<Rightarrow> (string \<times> string) list \<Rightarrow> 'w state \<Rightarrow> string list \<times> 'w state" where
  "mapToEditAddArgs d val st =
     (case getSemverSafe d kustomize0 st of
        (v, st') \<Rightarrow>
          (if LessThan (comparePrerelease d) v v3_8_5
           then [joinPairs [] val]
           else eachPair [] val, st'))"

section \<open>The build\<close>

text \<open>
  Each customization of \<^verbatim>\<open>Build\<close> (lines 166 to 379) is a step from the slice
  \<^verbatim>\<open>commands\<close> and the state to the new slice or the error that ends the build, and the
  new state. \<open>logAndRun\<close> is what most steps end with: the command is appended to
  \<^verbatim>\<open>commands\<close> and run, and its error is returned.
\<close>

type_synonym 'w step = "string list \<Rightarrow> 'w state \<Rightarrow> (error + string list) \<times> 'w state"

definition logAndRun :: "('w, 'p) deps \<Rightarrow> Cmd \<Rightarrow> 'w step" where
  "logAndRun d cmd commands st =
     (case run d cmd st of
        (Inl err, st') \<Rightarrow> (Inl err, st')
      | (Inr out, st') \<Rightarrow> (Inr (commands @ [GetCommandArgsToLog d cmd]), st'))"

text \<open>Lines 167 to 175.\<close>

definition stepNamePrefix :: "('w, 'p) deps \<Rightarrow> kustomize \<Rightarrow> 'p ApplicationSourceKustomize \<Rightarrow> 'w step" where
  "stepNamePrefix d k opts commands st =
     (if NamePrefix opts \<noteq> []
      then logAndRun d
             ((Command (getBinaryPath k) [''edit'', ''set'', ''nameprefix'', ''--'', NamePrefix opts])
                \<lparr>Dir := path k\<rparr>) commands st
      else (Inr commands, st))"

text \<open>Lines 176 to 184.\<close>

definition stepNameSuffix :: "('w, 'p) deps \<Rightarrow> kustomize \<Rightarrow> 'p ApplicationSourceKustomize \<Rightarrow> 'w step" where
  "stepNameSuffix d k opts commands st =
     (if NameSuffix opts \<noteq> []
      then logAndRun d
             ((Command (getBinaryPath k) [''edit'', ''set'', ''namesuffix'', ''--'', NameSuffix opts])
                \<lparr>Dir := path k\<rparr>) commands st
      else (Inr commands, st))"

text \<open>Lines 185 to 201.\<close>

definition stepImages ::
  "('w, 'p) deps \<Rightarrow> kustomize \<Rightarrow> 'p ApplicationSourceKustomize \<Rightarrow> EnvEntries option \<Rightarrow> 'w step" where
  "stepImages d k opts envVars commands st =
     (if Images opts \<noteq> []
      then logAndRun d
             ((Command (getBinaryPath k)
                 ([''edit'', ''set'', ''image''] @ map (Envsubst d envVars) (Images opts)))
                \<lparr>Dir := path k\<rparr>) commands st
      else (Inr commands, st))"

text \<open>Lines 203 to 222; \<open>replicaArgs\<close> is the loop of lines 206 to 213.\<close>

fun replicaArgs :: "('w, 'p) deps \<Rightarrow> string list \<Rightarrow> KustomizeReplica list \<Rightarrow> error + string list" where
  "replicaArgs d args [] = Inr args"
| "replicaArgs d args (replica # replicas) =
     (case GetIntCount d replica of
        Inl err \<Rightarrow> Inl err
      | Inr count' \<Rightarrow> replicaArgs d (args @ [Name replica @ ''='' @ Sprintf_d count']) replicas)"

definition stepReplicas :: "('w, 'p) deps \<Rightarrow> kustomize \<Rightarrow> 'p ApplicationSourceKustomize \<Rightarrow> 'w step" where
  "stepReplicas d k opts commands st =
     (if Replicas opts \<noteq> []
      then (case replicaArgs d [''edit'', ''set'', ''replicas''] (Replicas opts) of
              Inl err \<Rightarrow> (Inl err, st)
            | Inr args \<Rightarrow>
                logAndRun d ((Command (getBinaryPath k) args) \<lparr>Dir := path k\<rparr>) commands st)
      else (Inr commands, st))"

text \<open>
  Lines 224 to 247. The map \<^verbatim>\<open>commonLabels\<close> is built from \<^verbatim>\<open>opts.CommonLabels\<close> value by
  value; its entries are taken in the order in which \<^verbatim>\<open>mapToEditAddArgs\<close> visits them.
\<close>

definition stepCommonLabels ::
  "('w, 'p) deps \<Rightarrow> kustomize \<Rightarrow> 'p ApplicationSourceKustomize \<Rightarrow> EnvEntries option \<Rightarrow> 'w step" where
  "stepCommonLabels d k opts envVars commands st =
     (if CommonLabels opts \<noteq> []
      then
        (let args = [''edit'', ''add'', ''label''];
             args = (if ForceCommonLabels opts then args @ [''--force''] else args);
             args = (if LabelWithoutSelector opts then args @ [''--without-selector''] else args);
             args = (if LabelIncludeTemplates opts then args @ [''--include-templates''] else args);
             commonLabels = map (\<lambda>(name, value). (name, Envsubst d envVars value)) (CommonLabels opts)
         in case mapToEditAddArgs d commonLabels st of
              (pairs, st') \<Rightarrow>
                logAndRun d ((Command (getBinaryPath k) (args @ pairs)) \<lparr>Dir := path k\<rparr>)
                  commands st')
      else (Inr commands, st))"

text \<open>Lines 249 to 271.\<close>

definition stepCommonAnnotations ::
  "('w, 'p) deps \<Rightarrow> kustomize \<Rightarrow> 'p ApplicationSourceKustomize \<Rightarrow> EnvEntries option \<Rightarrow> 'w step" where
  "stepCommonAnnotations d k opts envVars commands st =
     (if CommonAnnotations opts \<noteq> []
      then
        (let args = [''edit'', ''add'', ''annotation''];
             args = (if ForceCommonAnnotations opts then args @ [''--force''] else args);
             commonAnnotations =
               (if CommonAnnotationsEnvsubst opts
                then map (\<lambda>(name, value). (name, Envsubst d envVars value)) (CommonAnnotations opts)
                else CommonAnnotations opts)
         in case mapToEditAddArgs d commonAnnotations st of
              (pairs, st') \<Rightarrow>
                logAndRun d ((Command (getBinaryPath k) (args @ pairs)) \<lparr>Dir := path k\<rparr>)
                  commands st')
      else (Inr commands, st))"

text \<open>Lines 273 to 281.\<close>

definition stepNamespace :: "('w, 'p) deps \<Rightarrow> kustomize \<Rightarrow> 'p ApplicationSourceKustomize \<Rightarrow> 'w step" where
  "stepNamespace d k opts commands st =
     (if Namespace opts \<noteq> []
      then logAndRun d
             ((Command (getBinaryPath k) [''edit'', ''set'', ''namespace'', ''--'', Namespace opts])
                \<lparr>Dir := path k\<rparr>) commands st
      else (Inr commands, st))"

text \<open>
  Lines 300 to 322, the merge of the patches into the parsed kustomization. \<open>assign\<close> is
  the assignment \<^verbatim>\<open>m[k] = v\<close> to a Go map. On a value that is no mapping line 302 prints
  the type of \<^verbatim>\<open>kMap\<close>, which is the map type whatever was parsed.
\<close>

fun assign :: "(string \<times> 'v) list \<Rightarrow> string \<Rightarrow> 'v \<Rightarrow> (string \<times> 'v) list" where
  "assign [] k v = [(k, v)]"
| "assign ((k', v') # m) k v = (if k' = k then (k, v) # m else (k', v') # assign m k v)"

definition mergePatches ::
  "('w, 'p) deps \<Rightarrow> 'p any \<Rightarrow> 'p list \<Rightarrow> error + (string \<times> 'p any) list" where
  "mergePatches d kustomization newPatches =
     (case kustomization of
        MapV kMap \<Rightarrow>
          (case map_of kMap ''patches'' of
             Some patches \<Rightarrow>
               (case patches of
                  SliceV patchesList \<Rightarrow>
                    Inr (assign kMap ''patches'' (SliceV (patchesList @ map PatchV newPatches)))
                | _ \<Rightarrow>
                    Inl (''expected 'patches' field in kustomization.yaml to be []any, but got '' @
                         verb_T d patches))
           | None \<Rightarrow> Inr (assign kMap ''patches'' (PatchesV newPatches)))
      | _ \<Rightarrow>
          Inl (''expected kustomization.yaml to be type map[string]any, but got '' @
               ''map[string]interface {}''))"

text \<open>Lines 283 to 336.\<close>

definition patchesNote :: string where
  "patchesNote =
     ''# kustomization.yaml updated with patches. There is no `kustomize edit` command for adding patches. In order to generate the manifests in your local environment, you will need to copy the patches into kustomization.yaml manually.''"

definition stepPatches :: "('w, 'p) deps \<Rightarrow> kustomize \<Rightarrow> 'p ApplicationSourceKustomize \<Rightarrow> 'w step" where
  "stepPatches d k opts commands st =
     (if Patches opts \<noteq> []
      then
        (let kustFile = findKustomizeFile d (world st) (path k) in
         if kustFile = [] then (Inl ''kustomization file not found in the path'', st)
         else
           (let kustomizationPath = PathJoin d (path k) kustFile in
            case ReadFile d (world st) kustomizationPath of
              Inl err \<Rightarrow> (Inl (''failed to load kustomization.yaml: '' @ err), st)
            | Inr b \<Rightarrow>
            (case Unmarshal d b of
              Inl err \<Rightarrow> (Inl (''failed to unmarshal kustomization.yaml: '' @ err), st)
            | Inr kustomization \<Rightarrow>
            (case mergePatches d kustomization (Patches opts) of
              Inl err \<Rightarrow> (Inl err, st)
            | Inr kMap \<Rightarrow>
            (case Marshal d (MapV kMap) of
              Inl err \<Rightarrow>
                (Inl (''failed to marshal kustomization.yaml after adding patches: '' @ err), st)
            | Inr updatedKustomization \<Rightarrow>
            (case Stat d (world st) kustomizationPath of
              Inl err \<Rightarrow> (Inl (''failed to stat kustomization.yaml: '' @ err), st)
            | Inr mode \<Rightarrow>
            (case WriteFile d kustomizationPath updatedKustomization mode (world st) of
              (Some err, w) \<Rightarrow>
                (Inl (''failed to write kustomization.yaml with updated 'patches' field: '' @ err),
                 st\<lparr>world := w\<rparr>)
            | (None, w) \<Rightarrow> (Inr (commands @ [patchesNote]), st\<lparr>world := w\<rparr>))))))))
      else (Inr commands, st))"

text \<open>
  Lines 338 to 378; \<open>foundIn\<close> is the loop of lines 355 to 366 with \<^verbatim>\<open>foundComponents\<close>.
  The deferred \<^verbatim>\<open>io.Close(root)\<close> is left out.
\<close>

fun foundIn ::
  "('w, 'p) deps \<Rightarrow> kustomize \<Rightarrow> 'w \<Rightarrow> string list \<Rightarrow> string list \<Rightarrow> error + string list" where
  "foundIn d k w foundComponents [] = Inr foundComponents"
| "foundIn d k w foundComponents (c # components) =
     (case Rel d (repoRoot k) (PathJoin d (path k) c) of
        Inl err \<Rightarrow> Inl (''kustomize components path failed: '' @ err)
      | Inr resolvedPath \<Rightarrow>
          (case RootStat d w (repoRoot k) resolvedPath of
             Some err \<Rightarrow> foundIn d k w foundComponents components
           | None \<Rightarrow> foundIn d k w (foundComponents @ [c]) components))"

text \<open>The command of lines 368 to 372.\<close>

definition componentCommand :: "kustomize \<Rightarrow> string list \<Rightarrow> string list \<Rightarrow> Cmd" where
  "componentCommand k env foundComponents =
     (Command (getBinaryPath k) ([''edit'', ''add'', ''component''] @ foundComponents))
       \<lparr>Dir := path k, Env := Some env\<rparr>"

definition stepComponents ::
  "('w, 'p) deps \<Rightarrow> kustomize \<Rightarrow> 'p ApplicationSourceKustomize \<Rightarrow> string list \<Rightarrow> 'w step" where
  "stepComponents d k opts env commands st =
     (if Components opts \<noteq> []
      then
        (case getSemverSafe d k st of
           (v, st') \<Rightarrow>
             if LessThan (comparePrerelease d) v v3_7_0
             then (Inl ''kustomize components require kustomize v3.7.0 and above'', st')
             else
               (case (if IgnoreMissingComponents opts
                      then (case OpenRoot d (world st') (repoRoot k) of
                              Some err \<Rightarrow> Inl (''failed to open the repo folder: '' @ err)
                            | None \<Rightarrow> foundIn d k (world st') [] (Components opts))
                      else Inr (Components opts)) of
                  Inl err \<Rightarrow> (Inl err, st')
                | Inr foundComponents \<Rightarrow>
                    logAndRun d (componentCommand k env foundComponents) commands st'))
      else (Inr commands, st))"

text \<open>The steps one after the other; the first error ends the sequence.\<close>

fun chain :: "'w step list \<Rightarrow> 'w step" where
  "chain [] commands st = (Inr commands, st)"
| "chain (f # fs) commands st =
     (case f commands st of
        (Inl err, st') \<Rightarrow> (Inl err, st')
      | (Inr commands', st') \<Rightarrow> chain fs commands' st')"

text \<open>The steps of lines 167 to 336, up to the patches.\<close>

definition stepsBeforeComponents ::
  "('w, 'p) deps \<Rightarrow> kustomize \<Rightarrow> 'p ApplicationSourceKustomize \<Rightarrow> EnvEntries option \<Rightarrow> 'w step list" where
  "stepsBeforeComponents d k opts envVars =
     [stepNamePrefix d k opts, stepNameSuffix d k opts, stepImages d k opts envVars,
      stepReplicas d k opts, stepCommonLabels d k opts envVars,
      stepCommonAnnotations d k opts envVars, stepNamespace d k opts, stepPatches d k opts]"

definition customize ::
  "('w, 'p) deps \<Rightarrow> kustomize \<Rightarrow> 'p ApplicationSourceKustomize option \<Rightarrow> EnvEntries option \<Rightarrow>
   string list \<Rightarrow> 'w step" where
  "customize d k opts envVars env commands st =
     (case opts of
        None \<Rightarrow> (Inr commands, st)
      | Some o' \<Rightarrow>
          chain (stepsBeforeComponents d k o' envVars @ [stepComponents d k o' env]) commands st)"

text \<open>Lines 131 to 164, the environment of the component and build commands.\<close>

definition buildEnv ::
  "('w, 'p) deps \<Rightarrow> kustomize \<Rightarrow> EnvEntries option \<Rightarrow> 'w \<Rightarrow> error + string list" where
  "buildEnv d k envVars w =
     (let env = Environ d w;
          env = (case envVars of Some e \<Rightarrow> env @ EnvEnviron d e | None \<Rightarrow> env)
      in case creds k of
           Inl err \<Rightarrow> Inl err
         | Inr environ \<Rightarrow>
             (let environ =
                (if repo k \<noteq> [] \<and> IsHTTPSURL d (repo k)
                 then (case ParseHost d (repo k) of
                         Inl err \<Rightarrow> environ
                       | Inr host \<Rightarrow>
                           (case GetCertBundlePathForRepository d w host of
                              Inl err \<Rightarrow> environ
                            | Inr caPath \<Rightarrow>
                                if caPath = [] then environ
                                else environ @ [''GIT_SSL_CAINFO='' @ caPath]))
                 else environ)
              in Inr (env @ environ)))"

text \<open>\<^verbatim>\<open>isHelmEnabled\<close> and \<^verbatim>\<open>parseKustomizeBuildOptions\<close>, lines 410 to 427.\<close>

definition isHelmEnabled :: "string \<Rightarrow> bool" where
  "isHelmEnabled buildOptions = Contains buildOptions ''--enable-helm''"

fun apiVersionFlags :: "string list \<Rightarrow> string list \<Rightarrow> string list" where
  "apiVersionFlags buildOptsParams [] = buildOptsParams"
| "apiVersionFlags buildOptsParams (v # vs) =
     apiVersionFlags (buildOptsParams @ [''--helm-api-versions'', v]) vs"

definition parseKustomizeBuildOptions ::
  "('w, 'p) deps \<Rightarrow> kustomize \<Rightarrow> string \<Rightarrow> BuildOpts option \<Rightarrow> 'w state \<Rightarrow> string list \<times> 'w state" where
  "parseKustomizeBuildOptions d k buildOptions buildOpts st =
     (let buildOptsParams = [''build'', path k] @ Fields buildOptions in
      case buildOpts of
        None \<Rightarrow> (buildOptsParams, st)
      | Some bo \<Rightarrow>
          (case getSemverSafe d k st of
             (v, st') \<Rightarrow>
               if \<not> LessThan (comparePrerelease d) v v5_3_0 \<and> isHelmEnabled buildOptions
               then
                 (apiVersionFlags
                    (if KubeVersion bo \<noteq> []
                     then buildOptsParams @ [''--helm-kube-version'', KubeVersion bo]
                     else buildOptsParams)
                    (APIVersions bo), st')
               else (buildOptsParams, st')))"

text \<open>
  Lines 381 to 400: the build command, run in the repository root, and its output split
  into objects. The result is the slice \<^verbatim>\<open>commands\<close> as it stands, not yet redacted, and
  the objects.
\<close>

definition buildCommand ::
  "('w, 'p) deps \<Rightarrow> kustomize \<Rightarrow> KustomizeOptions option \<Rightarrow> BuildOpts option \<Rightarrow> string list \<Rightarrow>
   'w state \<Rightarrow> Cmd \<times> 'w state" where
  "buildCommand d k kustomizeOptions buildOpts env st =
     (case (case kustomizeOptions of
              None \<Rightarrow> (Command (getBinaryPath k) [''build'', path k], st)
            | Some ko \<Rightarrow>
                if BuildOptions ko \<noteq> []
                then (case parseKustomizeBuildOptions d k (BuildOptions ko) buildOpts st of
                        (params, st') \<Rightarrow> (Command (getBinaryPath k) params, st'))
                else (Command (getBinaryPath k) [''build'', path k], st)) of
        (cmd, st') \<Rightarrow>
          (let cmd = cmd\<lparr>Env := Some env\<rparr>;
               cmd = cmd\<lparr>Env := Some (UpsertEnv d cmd (proxy k) (noProxy k))\<rparr>;
               cmd = cmd\<lparr>Dir := repoRoot k\<rparr>
           in (cmd, st')))"

type_synonym 'p objects = "(string \<times> 'p any) list list"

definition runBuild ::
  "('w, 'p) deps \<Rightarrow> kustomize \<Rightarrow> 'p ApplicationSourceKustomize option \<Rightarrow> KustomizeOptions option \<Rightarrow>
   EnvEntries option \<Rightarrow> BuildOpts option \<Rightarrow> 'w state \<Rightarrow>
   (error + string list \<times> 'p objects) \<times> 'w state" where
  "runBuild d k opts kustomizeOptions envVars buildOpts st =
     (case buildEnv d k envVars (world st) of
        Inl err \<Rightarrow> (Inl err, st)
      | Inr env \<Rightarrow>
          (case customize d k opts envVars env [] st of
             (Inl err, st1) \<Rightarrow> (Inl err, st1)
           | (Inr commands, st1) \<Rightarrow>
               (case buildCommand d k kustomizeOptions buildOpts env st1 of
                  (cmd, st2) \<Rightarrow>
                    (case run d cmd st2 of
                       (Inl err, st3) \<Rightarrow> (Inl err, st3)
                     | (Inr out, st3) \<Rightarrow>
                         (case SplitYAML d out of
                            Inl err \<Rightarrow> (Inl err, st3)
                          | Inr objs \<Rightarrow>
                              (Inr (commands @ [GetCommandArgsToLog d cmd], objs), st3))))))"

text \<open>
  \<^verbatim>\<open>Build\<close> returns four values. On every error path of lines 127 to 400 the first three
  are nil, here the empty list; lines 402 to 407 redact the commands and return.
\<close>

record 'p result =
  resObjs :: "'p objects"
  resImages :: "string list"
  resCommands :: "string list"
  resErr :: "error option"

definition Build ::
  "('w, 'p) deps \<Rightarrow> kustomize \<Rightarrow> 'p ApplicationSourceKustomize option \<Rightarrow> KustomizeOptions option \<Rightarrow>
   EnvEntries option \<Rightarrow> BuildOpts option \<Rightarrow> 'w state \<Rightarrow> 'p result \<times> 'w state" where
  "Build d k opts kustomizeOptions envVars buildOpts st =
     (case runBuild d k opts kustomizeOptions envVars buildOpts st of
        (Inl err, st') \<Rightarrow>
          (\<lparr>resObjs = [], resImages = [], resCommands = [], resErr = Some err\<rparr>, st')
      | (Inr (commands, objs), st') \<Rightarrow>
          (\<lparr>resObjs = objs, resImages = getImageParameters (verb_s d) objs,
            resCommands = map (\<lambda>c. ReplaceAll c (repoRoot k) ''.'') commands,
            resErr = None\<rparr>, st'))"

section \<open>Views used by the properties\<close>


text \<open>One entry of a label or annotation map as the tool takes it, \<^verbatim>\<open>key:value\<close>.\<close>

definition pairArg :: "string \<times> string \<Rightarrow> string" where
  "pairArg kv = fst kv @ '':'' @ snd kv"

text \<open>
  A string cut at the occurrences of \<open>sep\<close> that a search from the left finds: in no
  piece but the last does \<open>sep\<close> begin before the piece ends, and the last holds none.
\<close>

fun separated :: "string \<Rightarrow> string list \<Rightarrow> bool" where
  "separated sep [] = False"
| "separated sep [p] = (\<not> Contains p sep)"
| "separated sep (p # q # ps) = (\<not> Contains (p @ butlast sep) sep \<and> separated sep (q # ps))"

section \<open>A test double\<close>

text \<open>
  Collaborators for the concrete runs below: a tool that answers every command with the
  version line of line 484, a directory without kustomization file and without
  components, an empty environment, commands logged as their arguments joined by blanks.
\<close>

definition stub :: "(unit, unit) deps" where
  "stub =
     \<lparr>Run = (\<lambda>cmd w. (Inr ''{kustomize/v3.8.1  2020-07-16T00:58:46Z  }'', w)),
      GetCommandArgsToLog = (\<lambda>cmd. Join (Args cmd) '' ''),
      Environ = (\<lambda>w. []),
      EnvEnviron = (\<lambda>e. map (\<lambda>(n, v). n @ ''='' @ v) e),
      Envsubst = (\<lambda>e s. s),
      IsHTTPSURL = (\<lambda>u. False),
      ParseHost = (\<lambda>u. Inr u),
      GetCertBundlePathForRepository = (\<lambda>w h. Inr []),
      GetIntCount = (\<lambda>r. case Count r of IntVal i \<Rightarrow> Inr i | StrVal s \<Rightarrow> Inl ''expected integer value for count''),
      Stat = (\<lambda>w p. Inl ''no such file or directory''),
      ReadFile = (\<lambda>w p. Inl ''no such file or directory''),
      WriteFile = (\<lambda>p b m w. (None, w)),
      OpenRoot = (\<lambda>w p. None),
      RootStat = (\<lambda>w r p. Some ''no such file or directory''),
      PathJoin = (\<lambda>a b. a @ ''/'' @ b),
      Rel = (\<lambda>a b. Inr b),
      Unmarshal = (\<lambda>b. Inr NilV),
      Marshal = (\<lambda>v. Inr []),
      SplitYAML = (\<lambda>out. Inr []),
      UpsertEnv = (\<lambda>cmd p n. case Env cmd of Some e \<Rightarrow> e | None \<Rightarrow> []),
      comparePrerelease = (\<lambda>a b. 0),
      verb_s = (\<lambda>v. ''?''),
      verb_T = (\<lambda>v. ''?'')\<rparr>"

definition app :: kustomize where
  "app = kustomize0\<lparr>repoRoot := ''/tmp/repo'', path := ''/tmp/repo/app''\<rparr>"

definition noOpts :: "unit ApplicationSourceKustomize" where
  "noOpts =
     \<lparr>NamePrefix = [], NameSuffix = [], Images = [], Replicas = [], CommonLabels = [],
      ForceCommonLabels = False, LabelWithoutSelector = False, LabelIncludeTemplates = False,
      CommonAnnotations = [], ForceCommonAnnotations = False, CommonAnnotationsEnvsubst = False,
      Namespace = [], Patches = [], Components = [], IgnoreMissingComponents = False\<rparr>"

definition fresh :: "unit state" where
  "fresh = \<lparr>world = (), semVer = None, ran = []\<rparr>"

definition cached :: "Version \<Rightarrow> unit state" where
  "cached v = \<lparr>world = (), semVer = Some v, ran = []\<rparr>"

text \<open>The customizations and the version of the concrete runs.\<close>

definition withPrefixAndPatch :: "unit ApplicationSourceKustomize" where
  "withPrefixAndPatch = noOpts\<lparr>NamePrefix := ''p'', Patches := [()]\<rparr>"

definition setPrefix :: Cmd where
  "setPrefix = \<lparr>Path = ''kustomize'', Args = [''kustomize'', ''edit'', ''set'', ''nameprefix'', ''--'', ''p''],
                Env = None, Dir = ''/tmp/repo/app''\<rparr>"


definition onlyComponent :: "unit ApplicationSourceKustomize" where
  "onlyComponent = noOpts\<lparr>Components := [''c''], IgnoreMissingComponents := True\<rparr>"


definition buildApp :: Cmd where
  "buildApp = \<lparr>Path = ''kustomize'', Args = [''kustomize'', ''build'', ''/tmp/repo/app''],
               Env = Some [], Dir = ''/tmp/repo''\<rparr>"



section \<open>Properties of the image scan\<close>

lemma containerImages_append:
  "containerImages other (a @ b) v = a @ containerImages other b v"
  by (induction v arbitrary: b) (auto split: any.splits option.splits)

lemma rangeElems_append:
  "rangeElems other (a @ b) vs = a @ rangeElems other b vs"
  by (induction vs arbitrary: b) (auto split: any.splits)

lemma rangeObject_append:
  "rangeObject other (a @ b) object = a @ rangeObject other b object"
  by (induction object arbitrary: b)
     (auto simp: containerImages_append rangeElems_append split: any.splits)

lemma rangeObject_from_empty:
  "rangeObject other a object = a @ rangeObject other [] object"
  using rangeObject_append [of other a "[]" object] by simp

lemma containerImages_eq:
  "containerImages other [] v = concat (map (imageField other) v)"
proof (induction v)
  case Nil
  show ?case by simp
next
  case (Cons obj v)
  show ?case
    using containerImages_append [of other "imageField other obj" "[]" v] Cons.IH
    by (simp add: imageField_def split: any.splits option.splits)
qed

lemma rangeElems_eq:
  "rangeElems other [] vs = concat (map (scanOfElement other) vs)"
proof (induction vs)
  case Nil
  show ?case by simp
next
  case (Cons e vs)
  show ?case
    using rangeElems_append [of other "scanOfElement other e" "[]" vs] Cons.IH
    by (simp add: scanOfElement_def getImages_def split: any.splits)
qed

lemma getImages_Nil: "getImages other [] = []"
  by (simp add: getImages_def)

lemma getImages_Cons:
  "getImages other ((k, v) # object) = contribution other k v @ getImages other object"
proof (cases v)
  case (SliceV vs)
  then show ?thesis
    by (cases "k = ''containers'' \<or> k = ''initContainers''")
       (simp_all add: getImages_def contribution_def containerImages_eq rangeElems_eq
          rangeObject_from_empty [of other "concat _"])
next
  case (MapV m)
  then show ?thesis
    by (simp add: getImages_def contribution_def
          rangeObject_from_empty [of other "rangeObject _ _ _"])
qed (simp_all add: getImages_def contribution_def)


text \<open>
  C5. At each mapping the scan is, key by key in the order of the keys, what the
  specification describes: under \<^verbatim>\<open>containers\<close> or \<^verbatim>\<open>initContainers\<close> holding a sequence
  the string form of the \<^verbatim>\<open>image\<close> field of each element that is a mapping, with no
  scan of that element; under any other key holding a sequence the scan of each element
  that is a mapping; under a key holding a mapping the scan of it; nothing for any other
  value.
\<close>

theorem getImages_by_key:
  "getImages other object = concat (map (\<lambda>(k, v). contribution other k v) object)"
  by (induction object) (auto simp: getImages_Nil getImages_Cons)

theorem getImages_by_key_witness:
  "getImages (\<lambda>v :: unit any. ''?'')
     [(''spec'', MapV
        [(''containers'', SliceV
            [MapV [(''image'', StrV ''a''), (''env'', MapV [(''image'', StrV ''hidden'')])],
             StrV ''skipped'', MapV [(''image'', StrV ''b'')]]),
         (''sidecars'', SliceV
            [MapV [(''initContainers'', SliceV [MapV [(''image'', StrV ''c'')]])], NilV]),
         (''image'', StrV ''not a container'')])] = [''a'', ''b'', ''c'']"
  by (simp add: getImages_by_key contribution_def imageField_def scanOfElement_def Sprintf_s_def)

lemma mset_appendImages:
  "mset (appendImages other acc objs) = mset acc + (\<Sum>obj\<leftarrow>objs. mset (getImages other obj))"
  by (induction objs arbitrary: acc) auto

lemma count_list_mset: "count_list xs x = count (mset xs) x"
  by (induction xs) auto

lemma count_sum_list: "count (\<Sum>x\<leftarrow>xs. f x) a = (\<Sum>x\<leftarrow>xs. count (f x) a)"
  by (induction xs) auto

text \<open>
  C6. The image list of a list of objects is sorted in the order of strings, and every
  string stands in it as often as the scans of the objects find it, all objects
  together: nothing is dropped as a duplicate.
\<close>

theorem getImageParameters_sorted_keeps_duplicates:
  "sorted (getImageParameters other objs) \<and>
   count_list (getImageParameters other objs) i =
     (\<Sum>obj\<leftarrow>objs. count_list (getImages other obj) i)"
  by (simp add: getImageParameters_def count_list_mset mset_appendImages count_sum_list)

theorem getImageParameters_sorted_keeps_duplicates_witness:
  "getImageParameters (\<lambda>v :: unit any. ''?'')
     [[(''containers'', SliceV [MapV [(''image'', StrV ''nginx'')], MapV [(''image'', StrV ''busybox'')]])],
      [(''initContainers'', SliceV [MapV [(''image'', StrV ''nginx'')]])]]
     = [''busybox'', ''nginx'', ''nginx''] \<and>
   count_list [''busybox'', ''nginx'', ''nginx''] ''nginx'' = 2"
proof -
  let ?objs = "[[(''containers'', SliceV [MapV [(''image'', StrV ''nginx'')], MapV [(''image'', StrV ''busybox'')]])],
      [(''initContainers'', SliceV [MapV [(''image'', StrV ''nginx'')]])]] :: (string \<times> unit any) list list"
  have scan: "appendImages (\<lambda>v. ''?'') [] ?objs = [''nginx'', ''busybox'', ''nginx'']"
    by (simp add: getImages_Nil getImages_Cons contribution_def imageField_def Sprintf_s_def)
  have "count_list (getImageParameters (\<lambda>v. ''?'') ?objs) ''nginx'' = 2"
    using getImageParameters_sorted_keeps_duplicates [of "\<lambda>v. ''?''" ?objs "''nginx''"]
    by (simp add: getImages_Nil getImages_Cons contribution_def imageField_def Sprintf_s_def)
  moreover have "getImageParameters (\<lambda>v. ''?'') ?objs = [''busybox'', ''nginx'', ''nginx'']"
    unfolding getImageParameters_def scan by simp
  ultimately show ?thesis by simp
qed



section \<open>Properties of version detection\<close>

lemmas semver_defs =
  NewVersion_def matchAt_def optDotNumber_def optTagged_def isDigit_def isIdentChar_def
  ParseUint_def segment_def TrimPrefix_def HasPrefix_def validatePrerelease_def
  validateMetadata_def release_def Let_def

lemma MustParse_constants:
  "NewVersion ''v99.99.99'' = Inr unknownVersion"
  "NewVersion ''v3.8.5'' = Inr v3_8_5"
  "NewVersion ''v3.7.0'' = Inr v3_7_0"
  "NewVersion ''v5.3.0'' = Inr v5_3_0"
  by (simp_all add: semver_defs unknownVersion_def v3_8_5_def v3_7_0_def v5_3_0_def)

lemma release_sel:
  "major (release a b c t) = a" "minor (release a b c t) = b" "patch (release a b c t) = c"
  "pre (release a b c t) = []" "metadata (release a b c t) = []" "original (release a b c t) = t"
  by (simp_all add: release_def)

lemma LessThan_release:
  "LessThan cmpPre v (release a b c t) \<longleftrightarrow>
     major v < a \<or> (major v = a \<and> (minor v < b \<or> (minor v = b \<and>
       (patch v < c \<or> (patch v = c \<and> pre v \<noteq> [])))))"
  by (auto simp: LessThan_def Compare_def compareSegment_def release_def)

lemma matchAt_None_iff:
  "matchAt s = None \<longleftrightarrow>
     takeWhile isDigit (case s of c # t \<Rightarrow> if c = CHR ''v'' then t else s | [] \<Rightarrow> s) = []"
  by (simp add: matchAt_def Let_def split: prod.splits)

lemma not_digit_v: "\<not> isDigit (CHR ''v'')"
  by (simp add: isDigit_def)

lemma FindStringSubmatch_None_iff:
  "FindStringSubmatch s = None \<longleftrightarrow> (\<forall>c \<in> set s. \<not> isDigit c)"
proof (induction s)
  case Nil
  show ?case by simp
next
  case (Cons c s)
  show ?case
  proof (cases "isDigit c")
    case True
    then have "c \<noteq> CHR ''v''" using not_digit_v by auto
    with True have "matchAt (c # s) \<noteq> None"
      by (simp add: matchAt_None_iff)
    with True show ?thesis by (auto split: option.splits)
  next
    case False
    show ?thesis
    proof (cases "matchAt (c # s)")
      case None
      with False Cons.IH show ?thesis by simp
    next
      case (Some m)
      then have "takeWhile isDigit (if c = CHR ''v'' then s else c # s) \<noteq> []"
        using matchAt_None_iff [of "c # s"] by simp
      with False have "takeWhile isDigit s \<noteq> []"
        by (auto split: if_splits)
      then have "\<exists>x \<in> set s. isDigit x"
        by (cases s) (auto split: if_splits)
      with Some show ?thesis by auto
    qed
  qed
qed





lemma getSemverSafe_cached: "semVer st = Some v \<Longrightarrow> getSemverSafe d k st = (v, st)"
  by (simp add: getSemverSafe_def)




lemma stub_simps:
  "Run stub = (\<lambda>cmd w. (Inr ''{kustomize/v3.8.1  2020-07-16T00:58:46Z  }'', w))"
  "GetCommandArgsToLog stub = (\<lambda>cmd. Join (Args cmd) '' '')"
  "Environ stub = (\<lambda>w. [])"
  "Envsubst stub = (\<lambda>e s. s)"
  "IsHTTPSURL stub = (\<lambda>u. False)"
  "Stat stub = (\<lambda>w p. Inl ''no such file or directory'')"
  "OpenRoot stub = (\<lambda>w p. None)"
  "RootStat stub = (\<lambda>w r p. Some ''no such file or directory'')"
  "PathJoin stub = (\<lambda>a b. a @ ''/'' @ b)"
  "Rel stub = (\<lambda>a b. Inr b)"
  "SplitYAML stub = (\<lambda>out. Inr [])"
  "UpsertEnv stub = (\<lambda>cmd p n. case Env cmd of Some e \<Rightarrow> e | None \<Rightarrow> [])"
  "comparePrerelease stub = (\<lambda>a b. 0)"
  "verb_s stub = (\<lambda>v. ''?'')"
  by (simp_all add: stub_def)


section \<open>Properties of the label and annotation arguments\<close>

lemma joinPairs_nonempty:
  "arg \<noteq> [] \<Longrightarrow> joinPairs arg val = arg @ concat (map (\<lambda>kv. '','' @ pairArg kv) val)"
  by (induction val arbitrary: arg) (auto simp: pairArg_def)

lemma Join_Cons: "Join (x # xs) sep = x @ concat (map (\<lambda>y. sep @ y) xs)"
  by (induction xs arbitrary: x) auto

lemma joinPairs_Join: "val \<noteq> [] \<Longrightarrow> joinPairs [] val = Join (map pairArg val) '',''"
proof (cases val)
  case Nil
  then show "val \<noteq> [] \<Longrightarrow> ?thesis" by simp
next
  case (Cons kv rest)
  obtain n x where kv: "kv = (n, x)" by (cases kv)
  have "joinPairs [] val = joinPairs (pairArg kv) rest"
    by (simp add: Cons kv pairArg_def)
  also have "\<dots> = pairArg kv @ concat (map (\<lambda>kv. '','' @ pairArg kv) rest)"
    by (rule joinPairs_nonempty) (simp add: pairArg_def)
  also have "\<dots> = Join (map pairArg val) '',''"
    by (simp add: Cons Join_Cons comp_def)
  finally show ?thesis .
qed

lemma eachPair_map: "eachPair args val = args @ map pairArg val"
  by (induction val arbitrary: args) (auto simp: pairArg_def)

text \<open>
  C1. For a non-empty map of labels or annotations, visited in any order: when the
  detected version is less than 3.8.5 the arguments are the one token that joins the
  pairs \<^verbatim>\<open>key:value\<close>, in the order visited, with commas; otherwise they are the pairs,
  one argument each.
\<close>

theorem mapToEditAddArgs_by_version:
  assumes "val \<noteq> []" and "getSemverSafe d kustomize0 st = (v, st')"
  shows "mapToEditAddArgs d val st =
           (if LessThan (comparePrerelease d) v v3_8_5
            then [Join (map pairArg val) '','']
            else map pairArg val, st')"
  using assms by (simp add: mapToEditAddArgs_def joinPairs_Join eachPair_map)

theorem mapToEditAddArgs_by_version_witness:
  "mapToEditAddArgs stub [(''a'', ''1''), (''b'', ''2'')] (cached (release 3 8 4 ''v3.8.4'')) =
     ([''a:1,b:2''], cached (release 3 8 4 ''v3.8.4'')) \<and>
   mapToEditAddArgs stub [(''a'', ''1''), (''b'', ''2'')] (cached v3_8_5) =
     ([''a:1'', ''b:2''], cached v3_8_5)"
proof -
  have ne: "[(''a'', ''1''), (''b'', ''2'')] \<noteq> ([] :: (string \<times> string) list)"
    by simp
  have old: "getSemverSafe stub kustomize0 (cached (release 3 8 4 ''v3.8.4'')) =
      (release 3 8 4 ''v3.8.4'', cached (release 3 8 4 ''v3.8.4''))"
    by (simp add: getSemverSafe_cached cached_def)
  have new: "getSemverSafe stub kustomize0 (cached v3_8_5) = (v3_8_5, cached v3_8_5)"
    by (simp add: getSemverSafe_cached cached_def)
  show ?thesis
    using mapToEditAddArgs_by_version [OF ne old] mapToEditAddArgs_by_version [OF ne new]
    by (simp add: v3_8_5_def LessThan_release release_sel pairArg_def)
qed

section \<open>Properties of the build\<close>

lemma chain_append:
  "chain (fs @ gs) commands st =
     (case chain fs commands st of
        (Inl e, st') \<Rightarrow> (Inl e, st')
      | (Inr commands', st') \<Rightarrow> chain gs commands' st')"
  by (induction fs arbitrary: commands st) (auto split: prod.splits sum.splits)

lemma chain_single: "chain [f] commands st = f commands st"
  by (auto split: prod.splits sum.splits)

lemma customize_Some:
  "customize d k (Some opts) envVars env commands st =
     (case chain (stepsBeforeComponents d k opts envVars) commands st of
        (Inl e, st') \<Rightarrow> (Inl e, st')
      | (Inr commands', st') \<Rightarrow> stepComponents d k opts env commands' st')"
  by (simp add: customize_def chain_append chain_single split: prod.splits sum.splits)

lemma run_ran: "ran (snd (run d cmd st)) = ran st @ [cmd]"
  by (simp add: run_def split: prod.splits)

lemma getSemverSafe_ran:
  "ran (snd (getSemverSafe d k st)) =
     ran st @ (if semVer st = None then [Command (getBinaryPath k) [''version'', ''--short'']] else [])"
  by (auto simp: getSemverSafe_def getSemver_def versionWithBinaryPath_def run_def
           split: option.splits prod.splits sum.splits)

text \<open>
  C2, as the code has it. A build that fails, with a configuration error or any other,
  returns nothing but the error: the objects, the images and the command log are all
  nil. The commands recorded before the failing step are not returned.
\<close>

theorem Build_error_returns_nothing:
  assumes "resErr (fst (Build d k opts kustomizeOptions envVars buildOpts st)) \<noteq> None"
  shows "resObjs (fst (Build d k opts kustomizeOptions envVars buildOpts st)) = [] \<and>
         resImages (fst (Build d k opts kustomizeOptions envVars buildOpts st)) = [] \<and>
         resCommands (fst (Build d k opts kustomizeOptions envVars buildOpts st)) = []"
  using assms by (auto simp: Build_def split: prod.splits sum.splits)

lemmas step_defs =
  stepNamePrefix_def stepNameSuffix_def stepImages_def stepReplicas_def stepCommonLabels_def
  stepCommonAnnotations_def stepNamespace_def stepPatches_def

lemma app_simps:
  "repoRoot app = ''/tmp/repo''" "path app = ''/tmp/repo/app''" "creds app = Inr []"
  "repo app = []" "binaryPath app = []" "proxy app = []" "noProxy app = []"
  "getBinaryPath app = ''kustomize''"
  by (simp_all add: app_def kustomize0_def getBinaryPath_def)

lemma buildEnv_stub: "buildEnv stub app None w = Inr []"
  by (simp add: buildEnv_def app_simps stub_simps)

lemma stepNamePrefix_stub:
  "NamePrefix opts = ''p'' \<Longrightarrow>
   stepNamePrefix stub app opts commands st =
     (Inr (commands @ [''kustomize edit set nameprefix -- p'']), st\<lparr>ran := ran st @ [setPrefix]\<rparr>)"
  by (simp add: stepNamePrefix_def logAndRun_def run_def stub_simps app_simps Command_def setPrefix_def)

lemma before_components_stub:
  "chain (stepsBeforeComponents stub app withPrefixAndPatch None) [] fresh =
     (Inl ''kustomization file not found in the path'', fresh\<lparr>ran := [setPrefix]\<rparr>)"
  by (simp add: stepsBeforeComponents_def stepNamePrefix_stub withPrefixAndPatch_def noOpts_def
        stepNameSuffix_def stepImages_def stepReplicas_def stepCommonLabels_def
        stepCommonAnnotations_def stepNamespace_def stepPatches_def
        findKustomizeFile_def KustomizationNames_def stub_simps fresh_def)

lemma withPrefixAndPatch_prefix: "NamePrefix withPrefixAndPatch = ''p''"
  by (simp add: withPrefixAndPatch_def)

text \<open>
  C2 fails as stated: with a name prefix and a patch asked for and no kustomization file
  in the path, the prefix command has been recorded when the patches step fails, and
  the command log that comes back is empty.
\<close>

theorem Build_drops_recorded_commands:
  "fst (stepNamePrefix stub app withPrefixAndPatch [] fresh) = Inr [''kustomize edit set nameprefix -- p''] \<and>
   resErr (fst (Build stub app (Some withPrefixAndPatch) None None None fresh)) =
     Some ''kustomization file not found in the path'' \<and>
   resCommands (fst (Build stub app (Some withPrefixAndPatch) None None None fresh)) = []"
  by (simp add: Build_def runBuild_def buildEnv_stub customize_Some before_components_stub
        stepNamePrefix_stub withPrefixAndPatch_prefix)

theorem Build_error_returns_nothing_witness:
  "resErr (fst (Build stub app (Some withPrefixAndPatch) None None None fresh)) \<noteq> None \<and>
   resObjs (fst (Build stub app (Some withPrefixAndPatch) None None None fresh)) = [] \<and>
   resImages (fst (Build stub app (Some withPrefixAndPatch) None None None fresh)) = [] \<and>
   resCommands (fst (Build stub app (Some withPrefixAndPatch) None None None fresh)) = []"
proof -
  have failed: "resErr (fst (Build stub app (Some withPrefixAndPatch) None None None fresh)) \<noteq> None"
    by (simp add: Build_def runBuild_def buildEnv_stub customize_Some before_components_stub)
  from Build_error_returns_nothing [OF failed] failed show ?thesis by simp
qed


lemma idle_steps:
  "chain (stepsBeforeComponents stub app onlyComponent None) [] st = (Inr [], st)"
  by (simp add: stepsBeforeComponents_def step_defs onlyComponent_def noOpts_def)




lemma foundIn_all_missing:
  assumes "\<forall>c \<in> set components.
             \<exists>p. Rel d (repoRoot k) (PathJoin d (path k) c) = Inr p \<and>
                 RootStat d w (repoRoot k) p \<noteq> None"
  shows "foundIn d k w foundComponents components = Inr foundComponents"
  using assms by (induction components) (auto split: sum.splits option.splits)

lemma buildCommand_ran:
  "set (ran st) \<subseteq> set (ran (snd (buildCommand d k kustomizeOptions buildOpts env st)))"
  using getSemverSafe_ran [of d k st]
  by (auto simp: buildCommand_def parseKustomizeBuildOptions_def Let_def
           split: option.splits prod.splits if_splits)

lemma runBuild_after_customize:
  assumes "buildEnv d k envVars (world st) = Inr env"
    and "customize d k opts envVars env [] st = (Inr cs, st3)"
  shows "set (ran st3) \<subseteq> set (ran (snd (runBuild d k opts kustomizeOptions envVars buildOpts st))) \<and>
         (\<forall>cs' objs. fst (runBuild d k opts kustomizeOptions envVars buildOpts st) = Inr (cs', objs)
            \<longrightarrow> set cs \<subseteq> set cs')"
proof -
  obtain cmd st4 where bc: "buildCommand d k kustomizeOptions buildOpts env st3 = (cmd, st4)"
    by (cases "buildCommand d k kustomizeOptions buildOpts env st3")
  have s34: "set (ran st3) \<subseteq> set (ran st4)"
    using buildCommand_ran [of st3 d k kustomizeOptions buildOpts env] bc by simp
  obtain r st5 where rn: "run d cmd st4 = (r, st5)"
    by (cases "run d cmd st4")
  have s45: "set (ran st4) \<subseteq> set (ran st5)"
    using run_ran [of d cmd st4] rn by auto
  show ?thesis
    using assms bc rn s34 s45
    by (auto simp: runBuild_def split: sum.splits)
qed

text \<open>
  C9. With components asked for, missing ones to be skipped and every listed path failing
  the existence check (the version being at least 3.7.0 and the root opened), the step
  still runs \<^verbatim>\<open>edit add component\<close> with no path after it: the command is among the
  commands the build has run, and a build that succeeds returns its entry, redacted, in
  the command log.
\<close>

theorem missing_components_still_invoked:
  assumes "Components opts \<noteq> []" and "IgnoreMissingComponents opts"
    and "buildEnv d k envVars (world st) = Inr env"
    and "chain (stepsBeforeComponents d k opts envVars) [] st = (Inr commands, st1)"
    and "getSemverSafe d k st1 = (v, st2)"
    and "\<not> LessThan (comparePrerelease d) v v3_7_0"
    and "OpenRoot d (world st2) (repoRoot k) = None"
    and "\<forall>c \<in> set (Components opts).
           \<exists>p. Rel d (repoRoot k) (PathJoin d (path k) c) = Inr p \<and>
               RootStat d (world st2) (repoRoot k) p \<noteq> None"
  shows "Args (componentCommand k env []) = [getBinaryPath k, ''edit'', ''add'', ''component''] \<and>
         componentCommand k env [] \<in>
           set (ran (snd (Build d k (Some opts) kustomizeOptions envVars buildOpts st))) \<and>
         (resErr (fst (Build d k (Some opts) kustomizeOptions envVars buildOpts st)) = None \<longrightarrow>
            ReplaceAll (GetCommandArgsToLog d (componentCommand k env [])) (repoRoot k) ''.'' \<in>
              set (resCommands (fst (Build d k (Some opts) kustomizeOptions envVars buildOpts st))))"
proof -
  let ?c = "componentCommand k env []"
  let ?B = "Build d k (Some opts) kustomizeOptions envVars buildOpts st"
  let ?R = "runBuild d k (Some opts) kustomizeOptions envVars buildOpts st"
  have args: "Args ?c = [getBinaryPath k, ''edit'', ''add'', ''component'']"
    by (simp add: componentCommand_def Command_def)
  have found: "foundIn d k (world st2) [] (Components opts) = Inr []"
    using assms(8) by (rule foundIn_all_missing)
  have step: "stepComponents d k opts env commands st1 = logAndRun d ?c commands st2"
    using assms(1,2,5,6,7) found by (simp add: stepComponents_def)
  have cust: "customize d k (Some opts) envVars env [] st = logAndRun d ?c commands st2"
    using assms(4) step by (simp add: customize_Some)
  obtain r st3 where rn: "run d ?c st2 = (r, st3)"
    by (cases "run d ?c st2")
  have ran3: "?c \<in> set (ran st3)"
    using run_ran [of d ?c st2] rn by simp
  have snd_B: "snd ?B = snd ?R" and
    log_B: "resErr (fst ?B) = None \<Longrightarrow>
      \<exists>cs objs. fst ?R = Inr (cs, objs) \<and>
        resCommands (fst ?B) = map (\<lambda>c. ReplaceAll c (repoRoot k) ''.'') cs"
    by (auto simp: Build_def split: prod.splits sum.splits)
  show ?thesis
  proof (cases r)
    case (Inl e)
    then have "?R = (Inl e, st3)"
      using assms(3) cust rn by (simp add: runBuild_def logAndRun_def)
    then have "?c \<in> set (ran (snd ?B))" and "resErr (fst ?B) \<noteq> None"
      using ran3 by (simp_all add: Build_def)
    with args show ?thesis by auto
  next
    case (Inr out)
    then have c3: "customize d k (Some opts) envVars env [] st =
        (Inr (commands @ [GetCommandArgsToLog d ?c]), st3)"
      using cust rn by (simp add: logAndRun_def)
    note tail = runBuild_after_customize [OF assms(3) c3, of kustomizeOptions buildOpts]
    have in_ran: "?c \<in> set (ran (snd ?B))"
      using tail ran3 snd_B by auto
    have "resErr (fst ?B) = None \<Longrightarrow>
        ReplaceAll (GetCommandArgsToLog d ?c) (repoRoot k) ''.'' \<in> set (resCommands (fst ?B))"
    proof -
      assume "resErr (fst ?B) = None"
      from log_B [OF this] obtain cs objs where
        cs: "fst ?R = Inr (cs, objs)"
        "resCommands (fst ?B) = map (\<lambda>c. ReplaceAll c (repoRoot k) ''.'') cs"
        by blast
      from tail cs(1) have "GetCommandArgsToLog d ?c \<in> set cs" by auto
      with cs(2) show ?thesis by auto
    qed
    with args in_ran show ?thesis by simp
  qed
qed

lemma buildCommand_stub:
  "buildCommand stub app None None [] st = (buildApp, st)"
  by (simp add: buildCommand_def Command_def app_simps stub_simps buildApp_def)

lemma run_stub:
  "run stub cmd st = (Inr ''{kustomize/v3.8.1  2020-07-16T00:58:46Z  }'', st\<lparr>ran := ran st @ [cmd]\<rparr>)"
  by (simp add: run_def stub_simps)

lemma redact_examples:
  "ReplaceAll ''kustomize edit add component'' ''/tmp/repo'' ''.'' = ''kustomize edit add component''"
  "ReplaceAll ''kustomize build /tmp/repo/app'' ''/tmp/repo'' ''.'' = ''kustomize build ./app''"
  by (simp_all add: ReplaceAll_def HasPrefix_def)

lemma stepComponents_onlyComponent:
  "stepComponents stub app onlyComponent [] [] (cached v3_7_0) =
     (Inr [''kustomize edit add component''],
      (cached v3_7_0)\<lparr>ran := [componentCommand app [] []]\<rparr>)"
  by (simp add: stepComponents_def onlyComponent_def noOpts_def getSemverSafe_cached cached_def
        v3_7_0_def LessThan_release release_sel stub_simps logAndRun_def run_stub
        componentCommand_def Command_def app_simps)

lemma runBuild_onlyComponent:
  "runBuild stub app (Some onlyComponent) None None None (cached v3_7_0) =
     (Inr ([''kustomize edit add component'', ''kustomize build /tmp/repo/app''], []),
      (cached v3_7_0)\<lparr>ran := [componentCommand app [] [], buildApp]\<rparr>)"
  by (simp add: runBuild_def buildEnv_stub customize_Some idle_steps stepComponents_onlyComponent
        buildCommand_stub run_stub stub_simps buildApp_def)

theorem missing_components_still_invoked_witness:
  "componentCommand app [] [] \<in>
     set (ran (snd (Build stub app (Some onlyComponent) None None None (cached v3_7_0)))) \<and>
   Args (componentCommand app [] []) = [''kustomize'', ''edit'', ''add'', ''component''] \<and>
   ''kustomize edit add component'' \<in>
     set (resCommands (fst (Build stub app (Some onlyComponent) None None None (cached v3_7_0))))"
proof -
  have c: "Components onlyComponent \<noteq> []" and i: "IgnoreMissingComponents onlyComponent"
    by (simp_all add: onlyComponent_def)
  have v: "getSemverSafe stub app (cached v3_7_0) = (v3_7_0, cached v3_7_0)"
    by (simp add: getSemverSafe_cached cached_def)
  have sup: "\<not> LessThan (comparePrerelease stub) v3_7_0 v3_7_0"
    by (simp add: v3_7_0_def LessThan_release release_sel)
  have root: "OpenRoot stub (world (cached v3_7_0)) (repoRoot app) = None"
    by (simp add: stub_simps)
  have missing: "\<forall>c \<in> set (Components onlyComponent).
      \<exists>p. Rel stub (repoRoot app) (PathJoin stub (path app) c) = Inr p \<and>
          RootStat stub (world (cached v3_7_0)) (repoRoot app) p \<noteq> None"
    by (simp add: stub_simps)
  have ok: "resErr (fst (Build stub app (Some onlyComponent) None None None (cached v3_7_0))) = None"
    by (simp add: Build_def runBuild_onlyComponent)
  have log: "GetCommandArgsToLog stub (componentCommand app [] []) = ''kustomize edit add component''"
    by (simp add: stub_simps componentCommand_def Command_def app_simps)
  from missing_components_still_invoked [OF c i buildEnv_stub idle_steps v sup root missing,
      of None None] ok
  show ?thesis
    by (simp add: log redact_examples app_simps)
qed

section \<open>Properties of the redaction\<close>

lemma replaceFrom_at_occurrence:
  assumes "old \<noteq> []"
  shows "replaceFrom old new (old @ b) = new @ replaceFrom old new b"
proof -
  obtain c rest where old: "old = c # rest"
    using assms by (cases old) auto
  show ?thesis
    by (simp add: old HasPrefix_def)
qed

lemma take_within: "n \<le> length xs \<Longrightarrow> take n (xs @ ys) = take n xs"
  by simp

lemma HasPrefix_length:
  assumes "HasPrefix s old"
  shows "length old \<le> length s"
proof -
  from assms have "length (take (length old) s) = length old"
    by (simp add: HasPrefix_def)
  then show ?thesis by simp
qed

lemma HasPrefix_before_occurrence:
  assumes "old \<noteq> []"
  shows "HasPrefix ((x # a) @ old @ b) old = HasPrefix ((x # a) @ butlast old) old"
proof -
  have "(butlast old @ [last old]) @ b = old @ b"
    using append_butlast_last_id [OF assms] by simp
  then have "(x # a) @ old @ b = ((x # a) @ butlast old) @ (last old # b)"
    by simp
  moreover have "length old \<le> length ((x # a) @ butlast old)"
    using assms by simp
  ultimately have "take (length old) ((x # a) @ old @ b) = take (length old) ((x # a) @ butlast old)"
    by (simp only: take_within)
  then show ?thesis
    by (simp only: HasPrefix_def)
qed

lemma replaceFrom_skip:
  assumes "old \<noteq> []" and "\<not> Contains (a @ butlast old) old"
  shows "replaceFrom old new (a @ old @ b) = a @ new @ replaceFrom old new b"
  using assms(2)
proof (induction a)
  case Nil
  show ?case by (simp add: replaceFrom_at_occurrence [OF assms(1)])
next
  case (Cons x a)
  from Cons.prems have no: "\<not> HasPrefix ((x # a) @ butlast old) old"
    and rest: "\<not> Contains (a @ butlast old) old"
    by simp_all
  from no have "\<not> HasPrefix ((x # a) @ old @ b) old"
    using HasPrefix_before_occurrence [OF assms(1), of x a b] by blast
  then have "replaceFrom old new ((x # a) @ old @ b) = x # replaceFrom old new (a @ old @ b)"
    by simp
  with Cons.IH [OF rest] show ?case by simp
qed

lemma replaceFrom_none:
  "\<not> Contains s old \<Longrightarrow> replaceFrom old new s = s"
  by (induction s) auto

lemma separated_nonempty_sep: "separated old pieces \<Longrightarrow> old \<noteq> []"
proof (induction old pieces rule: separated.induct)
  case (2 sep p)
  then show ?case by (cases p) (auto simp: HasPrefix_def)
qed auto

lemma replaceFrom_pieces:
  "separated old pieces \<Longrightarrow> replaceFrom old new (Join pieces old) = Join pieces new"
proof (induction old pieces rule: separated.induct)
  case (1 sep)
  then show ?case by simp
next
  case (2 sep p)
  then show ?case by (simp add: replaceFrom_none)
next
  case (3 sep p q ps)
  then have sep: "sep \<noteq> []"
    using separated_nonempty_sep [of sep "p # q # ps"] by blast
  from 3 show ?case
    by (simp add: replaceFrom_skip [OF sep])
qed

lemma ReplaceAll_pieces:
  assumes "separated old pieces"
  shows "ReplaceAll (Join pieces old) old new = Join pieces new"
proof (cases "old = new")
  case True
  then show ?thesis by (simp add: ReplaceAll_def)
next
  case False
  with separated_nonempty_sep [OF assms] replaceFrom_pieces [OF assms] show ?thesis
    by (simp add: ReplaceAll_def)
qed

text \<open>Every string is cut in that way.\<close>

lemma Contains_length: "Contains s old \<Longrightarrow> length old \<le> length s"
  by (induction s) (auto dest: HasPrefix_length)

lemma first_occurrence:
  assumes "old \<noteq> []" and "Contains s old"
  shows "\<exists>a b. s = a @ old @ b \<and> \<not> Contains (a @ butlast old) old"
  using assms(2)
proof (induction s)
  case Nil
  with assms(1) show ?case by simp
next
  case (Cons c s)
  show ?case
  proof (cases "HasPrefix (c # s) old")
    case True
    then have "c # s = [] @ old @ drop (length old) (c # s)"
      by (metis HasPrefix_def append_Nil append_take_drop_id)
    moreover have "\<not> Contains ([] @ butlast old) old"
      using Contains_length [of "butlast old" old] assms(1) by (cases old) auto
    ultimately show ?thesis by blast
  next
    case False
    with Cons.prems have "Contains s old" by simp
    from Cons.IH [OF this] obtain a b where
      ab: "s = a @ old @ b" "\<not> Contains (a @ butlast old) old" by blast
    from False have "\<not> HasPrefix ((c # a) @ butlast old) old"
      using HasPrefix_before_occurrence [OF assms(1), of c a b] ab(1) by auto
    with ab have "c # s = (c # a) @ old @ b \<and> \<not> Contains ((c # a) @ butlast old) old"
      by simp
    then show ?thesis by blast
  qed
qed

lemma separated_exists:
  assumes "old \<noteq> []"
  shows "\<exists>pieces. separated old pieces \<and> Join pieces old = s"
proof (induction s rule: length_induct)
  case (1 s)
  show ?case
  proof (cases "Contains s old")
    case False
    then have "separated old [s] \<and> Join [s] old = s" by simp
    then show ?thesis by blast
  next
    case True
    from first_occurrence [OF assms True] obtain a b where
      ab: "s = a @ old @ b" "\<not> Contains (a @ butlast old) old" by blast
    then have "length b < length s"
      using assms by simp
    with 1 obtain pieces where p: "separated old pieces" "Join pieces old = b"
      by blast
    then obtain q qs where q: "pieces = q # qs"
      by (cases pieces) auto
    from ab p q have "separated old (a # pieces) \<and> Join (a # pieces) old = s"
      by simp
    then show ?thesis by blast
  qed
qed

text \<open>
  C8. A build that succeeds returns, for each entry of the command log in order, the
  entry with the repository root replaced: an entry that is pieces with the root between
  them, cut where a search from the left finds the root, comes back as the same pieces
  with \<^verbatim>\<open>.\<close> between them, wherever in the entry the root stands; and when the root is
  not the empty string every entry is such pieces.
\<close>

theorem Build_redacts_repoRoot:
  assumes "resErr (fst (Build d k opts kustomizeOptions envVars buildOpts st)) = None"
  shows "\<exists>commands objs.
           fst (runBuild d k opts kustomizeOptions envVars buildOpts st) = Inr (commands, objs) \<and>
           resCommands (fst (Build d k opts kustomizeOptions envVars buildOpts st)) =
             map (\<lambda>c. ReplaceAll c (repoRoot k) ''.'') commands \<and>
           (\<forall>c \<in> set commands. \<forall>pieces.
              separated (repoRoot k) pieces \<and> Join pieces (repoRoot k) = c \<longrightarrow>
                ReplaceAll c (repoRoot k) ''.'' = Join pieces ''.'') \<and>
           (repoRoot k \<noteq> [] \<longrightarrow>
              (\<forall>c \<in> set commands. \<exists>pieces.
                 separated (repoRoot k) pieces \<and> Join pieces (repoRoot k) = c))"
  using assms
  by (auto simp: Build_def ReplaceAll_pieces separated_exists split: prod.splits sum.splits)

lemma runBuild_noOpts:
  "runBuild stub app None None None None fresh =
     (Inr ([''kustomize build /tmp/repo/app''], []), fresh\<lparr>ran := [buildApp]\<rparr>)"
  by (simp add: runBuild_def buildEnv_stub customize_def buildCommand_stub run_stub stub_simps
        buildApp_def fresh_def)

theorem Build_redacts_repoRoot_witness:
  "resErr (fst (Build stub app None None None None fresh)) = None \<and>
   resCommands (fst (Build stub app None None None None fresh)) = [''kustomize build ./app'']"
proof -
  have ok: "resErr (fst (Build stub app None None None None fresh)) = None"
    by (simp add: Build_def runBuild_noOpts)
  from Build_redacts_repoRoot [OF ok] obtain commands objs where
    run: "fst (runBuild stub app None None None None fresh) = Inr (commands, objs)" and
    log: "resCommands (fst (Build stub app None None None None fresh)) =
            map (\<lambda>c. ReplaceAll c (repoRoot app) ''.'') commands" and
    cut: "\<forall>c \<in> set commands. \<forall>pieces.
            separated (repoRoot app) pieces \<and> Join pieces (repoRoot app) = c \<longrightarrow>
              ReplaceAll c (repoRoot app) ''.'' = Join pieces ''.''"
    by blast
  from run have commands: "commands = [''kustomize build /tmp/repo/app'']"
    by (simp add: runBuild_noOpts)
  have pieces: "separated (repoRoot app) [''kustomize build '', ''/app''] \<and>
        Join [''kustomize build '', ''/app''] (repoRoot app) = ''kustomize build /tmp/repo/app''"
    by (simp add: app_simps HasPrefix_def)
  from cut commands have "\<forall>pieces.
      separated (repoRoot app) pieces \<and> Join pieces (repoRoot app) = ''kustomize build /tmp/repo/app'' \<longrightarrow>
        ReplaceAll ''kustomize build /tmp/repo/app'' (repoRoot app) ''.'' = Join pieces ''.''"
    by simp
  from this [rule_format, OF pieces]
  have "ReplaceAll ''kustomize build /tmp/repo/app'' (repoRoot app) ''.'' = ''kustomize build ./app''"
    by simp
  with log commands ok show ?thesis by simp
qed

section \<open>Properties of the patch merge\<close>





end
